theory Spec2Isabelle
  imports Main "HOL-Library.Word"
begin

section \<open>Values shared by the storage port and the upload adapter\<close>

type_synonym byte = "8 word"
type_synonym int64 = "64 word"

text \<open>
  Go's \<open>error\<close> values. The adapter itself creates exactly one, with
  \<open>errors.New("miss filehash")\<close>; every other error comes out of the object storage SDK, the
  stream that is read, the JSON decoder or \<open>strconv\<close>, and is passed on as it is.
\<close>

datatype error =
    errors_New string
  | ServiceError string
  | TransportError string
  | SyntaxError
  | NumError string

text \<open>\<open>oss.Option\<close>: the only option the adapter builds is \<open>oss.ContentDisposition\<close>.\<close>

datatype Option_oss = ContentDisposition string

text \<open>
  An \<open>io.Reader\<close> / \<open>io.ReadCloser\<close>: the bytes it yields and, when reading it breaks off,
  the error it ends with instead of EOF.
\<close>

datatype Reader = Reader (content: "byte list") (failure: "error option")

definition bytes_NewReader :: "byte list \<Rightarrow> Reader" where
  "bytes_NewReader data = Reader data None"

text \<open>\<open>bytes.Buffer.ReadFrom\<close> followed by \<open>Bytes()\<close>: everything up to EOF, or the stream's error.\<close>

definition ReadFrom :: "Reader \<Rightarrow> error + byte list" where
  "ReadFrom r = (case failure r of Some e \<Rightarrow> Inl e | None \<Rightarrow> Inr (content r))"

text \<open>\<open>http.Header\<close> with \<open>Get\<close>, which answers the empty string for a missing header.\<close>

type_synonym Header = "string \<rightharpoonup> string"

definition Header_Get :: "Header \<Rightarrow> string \<Rightarrow> string" where
  "Header_Get h k = (case h k of None \<Rightarrow> [] | Some v \<Rightarrow> v)"

text \<open>
  \<open>strconv.ParseInt(s, 10, 64)\<close>: an optional sign, then one or more decimal digits, read
  from the left as \<open>ParseUint\<close> does: the first character that is no digit ends the scan with
  a syntax error, the first digit that takes the value to \<open>2^64\<close> or beyond ends it with a
  range error; at the end the value has to fit a signed 64-bit integer.
\<close>

definition digit_of :: "char \<Rightarrow> nat option" where
  "digit_of c = (let n = (of_char c :: nat) in if 48 \<le> n \<and> n \<le> 57 then Some (n - 48) else None)"

fun ParseUint_digits :: "nat \<Rightarrow> string \<Rightarrow> error + nat" where
  "ParseUint_digits n [] = Inr n"
| "ParseUint_digits n (c # cs) =
     (case digit_of c of
        None \<Rightarrow> Inl (NumError ''invalid syntax'')
      | Some d \<Rightarrow>
          if 2 ^ 64 \<le> n * 10 + d then Inl (NumError ''value out of range'')
          else ParseUint_digits (n * 10 + d) cs)"

definition ParseInt :: "string \<Rightarrow> error + int64" where
  "ParseInt s =
     (if s = [] then Inl (NumError ''invalid syntax'')
      else let neg = (hd s = CHR ''-'');
               ds = (if hd s = CHR ''+'' \<or> hd s = CHR ''-'' then tl s else s)
           in if ds = [] then Inl (NumError ''invalid syntax'')
              else case ParseUint_digits 0 ds of
                     Inl err \<Rightarrow> Inl err
                   | Inr un \<Rightarrow>
                       if \<not> neg \<and> 2 ^ 63 \<le> un then Inl (NumError ''value out of range'')
                       else if neg \<and> 2 ^ 63 < un then Inl (NumError ''value out of range'')
                       else Inr (if neg then - of_nat un else of_nat un))"

section \<open>The object storage port (the second source file)\<close>

text \<open>
  \<open>oss.Bucket\<close> belongs to the Aliyun SDK, outside this repository, so the bucket is a
  parameter: its five methods that \<open>ossService\<close> calls, each a function of the backend state
  \<open>'b\<close> that returns its Go results and the state it leaves. Every property below that does
  not name a particular bucket holds for all of them, failing ones included.
\<close>

record 'b Bucket =
  oss_GetObject :: "'b \<Rightarrow> string \<Rightarrow> (error + Reader) \<times> 'b"
  oss_GetObjectDetailedMeta :: "'b \<Rightarrow> string \<Rightarrow> (error + Header) \<times> 'b"
  oss_DeleteObjects :: "'b \<Rightarrow> string list \<Rightarrow> error option \<times> 'b"
  oss_PutObject :: "'b \<Rightarrow> string \<Rightarrow> Reader \<Rightarrow> Option_oss list \<Rightarrow> error option \<times> 'b"
  oss_AppendObject ::
    "'b \<Rightarrow> string \<Rightarrow> Reader \<Rightarrow> int64 \<Rightarrow> Option_oss list \<Rightarrow> (int64 \<times> error option) \<times> 'b"

text \<open>
  The interface \<open>OSSAPI\<close>. A Go result \<open>(int64, error)\<close> is kept as a pair, because
  \<open>GetUpload\<close> uses the number and drops the error. \<open>SignURL\<close> is never called by the
  adapter and is left out, as is the context argument, which no method of \<open>ossService\<close> reads.
\<close>

record 'b OSSAPI =
  ReadObject :: "'b \<Rightarrow> string \<Rightarrow> (error + Reader) \<times> 'b"
  GetObjectSize :: "'b \<Rightarrow> string \<Rightarrow> (int64 \<times> error option) \<times> 'b"
  DeleteObject :: "'b \<Rightarrow> string list \<Rightarrow> error option \<times> 'b"
  WriteObject :: "'b \<Rightarrow> string \<Rightarrow> Reader \<Rightarrow> Option_oss list \<Rightarrow> error option \<times> 'b"
  AppendObject ::
    "'b \<Rightarrow> string \<Rightarrow> Reader \<Rightarrow> int64 \<Rightarrow> Option_oss list \<Rightarrow> (int64 \<times> error option) \<times> 'b"

definition ossService_ReadObject :: "'b Bucket \<Rightarrow> 'b \<Rightarrow> string \<Rightarrow> (error + Reader) \<times> 'b" where
  "ossService_ReadObject bucket b objectKey = oss_GetObject bucket b objectKey"

definition ossService_GetObjectSize ::
  "'b Bucket \<Rightarrow> 'b \<Rightarrow> string \<Rightarrow> (int64 \<times> error option) \<times> 'b" where
  "ossService_GetObjectSize bucket b objectKey =
     (case oss_GetObjectDetailedMeta bucket b objectKey of
        (Inl err, b') \<Rightarrow> ((0, Some err), b')
      | (Inr meta, b') \<Rightarrow>
          (case ParseInt (Header_Get meta ''Content-Length'') of
             Inl err \<Rightarrow> ((0, Some err), b')
           | Inr len \<Rightarrow> ((len, None), b')))"

definition ossService_DeleteObject ::
  "'b Bucket \<Rightarrow> 'b \<Rightarrow> string list \<Rightarrow> error option \<times> 'b" where
  "ossService_DeleteObject bucket b objectKey =
     (case oss_DeleteObjects bucket b objectKey of
        (Some err, b') \<Rightarrow> (Some err, b')
      | (None, b') \<Rightarrow> (None, b'))"

definition ossService_WriteObject ::
  "'b Bucket \<Rightarrow> 'b \<Rightarrow> string \<Rightarrow> Reader \<Rightarrow> Option_oss list \<Rightarrow> error option \<times> 'b" where
  "ossService_WriteObject bucket b objectKey r opts = oss_PutObject bucket b objectKey r opts"

definition ossService_AppendObject ::
  "'b Bucket \<Rightarrow> 'b \<Rightarrow> string \<Rightarrow> Reader \<Rightarrow> int64 \<Rightarrow> Option_oss list
     \<Rightarrow> (int64 \<times> error option) \<times> 'b" where
  "ossService_AppendObject bucket b objectKey r offset opts =
     (case oss_AppendObject bucket b objectKey r offset opts of
        ((n, Some err), b') \<Rightarrow> ((0, Some err), b')
      | ((n, None), b') \<Rightarrow> ((n, None), b'))"

definition ossService :: "'b Bucket \<Rightarrow> 'b OSSAPI" where
  "ossService bucket =
     \<lparr> ReadObject = ossService_ReadObject bucket,
       GetObjectSize = ossService_GetObjectSize bucket,
       DeleteObject = ossService_DeleteObject bucket,
       WriteObject = ossService_WriteObject bucket,
       AppendObject = ossService_AppendObject bucket \<rparr>"

section \<open>The upload adapter (\<open>OSSStore.go\<close>)\<close>

text \<open>
  Modelled from the spec: \<open>handler.FileInfo\<close> is declared in the framework package
  \<open>pkg/handler\<close>, which is not among the sources. The fields are the four the adapter reads
  or writes (\<open>ID\<close>, \<open>Offset\<close>, \<open>MetaData\<close>, \<open>Storage\<close>) and the declared total size of the
  spec's UploadMetadata.
\<close>

record FileInfo =
  ID :: string
  Size :: int64
  Offset :: int64
  MetaData :: "string \<rightharpoonup> string"
  Storage :: "string \<rightharpoonup> string"

text \<open>
  \<open>encoding/json\<close> is a parameter too: \<open>Marshal\<close>, whose error \<open>NewUpload\<close> drops, and
  \<open>Unmarshal\<close> into a zero \<open>FileInfo\<close>.
\<close>

record Json =
  Marshal :: "FileInfo \<Rightarrow> byte list"
  Unmarshal :: "byte list \<Rightarrow> error + FileInfo"

record 'b OSSStore =
  service :: "'b OSSAPI"

record 'b ossUpload =
  info :: FileInfo
  store :: "'b OSSStore"

text \<open>
  What a call of the adapter can change: the backend behind the port, the handles allocated
  so far (\<open>&ossUpload{...}\<close> appends one; a pointer is its index), and a ghost log of the port
  calls made, in order, which lets the theorems speak about which calls an operation makes.
\<close>

datatype port_call =
    Call_ReadObject string
  | Call_GetObjectSize string
  | Call_DeleteObject "string list"
  | Call_WriteObject string Reader "Option_oss list"
  | Call_AppendObject string Reader int64 "Option_oss list"

record 'b world =
  backend :: 'b
  heap :: "'b ossUpload list"
  trace :: "port_call list"

definition logged :: "port_call \<Rightarrow> 'r \<times> 'b \<Rightarrow> 'b world \<Rightarrow> 'r \<times> 'b world" where
  "logged c res w = (case res of (r, b') \<Rightarrow> (r, w\<lparr>backend := b', trace := trace w @ [c]\<rparr>))"

definition call_ReadObject ::
  "'b OSSStore \<Rightarrow> string \<Rightarrow> 'b world \<Rightarrow> (error + Reader) \<times> 'b world" where
  "call_ReadObject st key w =
     logged (Call_ReadObject key) (ReadObject (service st) (backend w) key) w"

definition call_GetObjectSize ::
  "'b OSSStore \<Rightarrow> string \<Rightarrow> 'b world \<Rightarrow> (int64 \<times> error option) \<times> 'b world" where
  "call_GetObjectSize st key w =
     logged (Call_GetObjectSize key) (GetObjectSize (service st) (backend w) key) w"

definition call_DeleteObject ::
  "'b OSSStore \<Rightarrow> string list \<Rightarrow> 'b world \<Rightarrow> error option \<times> 'b world" where
  "call_DeleteObject st keys w =
     logged (Call_DeleteObject keys) (DeleteObject (service st) (backend w) keys) w"

definition call_WriteObject ::
  "'b OSSStore \<Rightarrow> string \<Rightarrow> Reader \<Rightarrow> Option_oss list \<Rightarrow> 'b world \<Rightarrow> error option \<times> 'b world" where
  "call_WriteObject st key r opts w =
     logged (Call_WriteObject key r opts) (WriteObject (service st) (backend w) key r opts) w"

definition call_AppendObject ::
  "'b OSSStore \<Rightarrow> string \<Rightarrow> Reader \<Rightarrow> int64 \<Rightarrow> Option_oss list \<Rightarrow> 'b world
     \<Rightarrow> (int64 \<times> error option) \<times> 'b world" where
  "call_AppendObject st key r offset opts w =
     logged (Call_AppendObject key r offset opts)
       (AppendObject (service st) (backend w) key r offset opts) w"

definition New :: "'b OSSAPI \<Rightarrow> 'b OSSStore" where
  "New svc = \<lparr> service = svc \<rparr>"

definition binPath :: "string \<Rightarrow> string" where
  "binPath uid = uid"

definition infoPath :: "string \<Rightarrow> string" where
  "infoPath uid = uid @ ''.info''"

text \<open>\<open>&ossUpload{...}\<close>: a fresh handle; the pointer returned is its place in the heap.\<close>

definition new_ossUpload :: "'b ossUpload \<Rightarrow> 'b world \<Rightarrow> nat \<times> 'b world" where
  "new_ossUpload upload w = (length (heap w), w\<lparr>heap := heap w @ [upload]\<rparr>)"

definition deref :: "'b world \<Rightarrow> nat \<Rightarrow> 'b ossUpload option" where
  "deref w p = (if p < length (heap w) then Some (heap w ! p) else None)"

text \<open>
  \<open>NewUpload\<close>. The handle is built before the write in the source, but it is unreachable on
  the error path, so it is allocated where it is returned.
\<close>

definition NewUpload ::
  "Json \<Rightarrow> 'b OSSStore \<Rightarrow> 'b world \<Rightarrow> FileInfo \<Rightarrow> (error + nat) \<times> 'b world" where
  "NewUpload json st w info0 =
     (case MetaData info0 ''filehash'' of
        None \<Rightarrow> (Inl (errors_New ''miss filehash''), w)
      | Some filehash \<Rightarrow>
          (let info1 = info0\<lparr>ID := filehash\<rparr>;
               info2 = info1\<lparr>Storage := [''Type'' \<mapsto> ''ossstore'', ''Key'' \<mapsto> binPath (ID info1)]\<rparr>;
               upload = \<lparr> info = info2, store = st \<rparr>;
               data = Marshal json info2;
               r = bytes_NewReader data
           in case call_WriteObject st (infoPath (ID info2)) r [] w of
                (Some err, w1) \<Rightarrow> (Inl err, w1)
              | (None, w1) \<Rightarrow> (case new_ossUpload upload w1 of (p, w2) \<Rightarrow> (Inr p, w2))))"

definition GetUpload ::
  "Json \<Rightarrow> 'b OSSStore \<Rightarrow> 'b world \<Rightarrow> string \<Rightarrow> (error + nat) \<times> 'b world" where
  "GetUpload json st w uid =
     (let binP = binPath uid;
          infoP = infoPath uid
      in case call_ReadObject st infoP w of
           (Inl err, w1) \<Rightarrow> (Inl err, w1)
         | (Inr r, w1) \<Rightarrow>
             (case ReadFrom r of
                Inl err \<Rightarrow> (Inl err, w1)
              | Inr buf \<Rightarrow>
                  (case Unmarshal json buf of
                     Inl err \<Rightarrow> (Inl err, w1)
                   | Inr info1 \<Rightarrow>
                       (case call_GetObjectSize st binP w1 of
                          ((offset, _), w2) \<Rightarrow>
                            (let info2 = info1\<lparr>Offset := offset\<rparr>
                             in case new_ossUpload \<lparr> info = info2, store = st \<rparr> w2 of
                                  (p, w3) \<Rightarrow> (Inr p, w3))))))"

text \<open>
  The methods of \<open>ossUpload\<close>. All of them are declared with a value receiver,
  \<open>func (upload ossUpload) ...\<close>, so each is a function of the receiver's value.
\<close>

definition GetInfo :: "'b ossUpload \<Rightarrow> 'b world \<Rightarrow> (FileInfo \<times> error option) \<times> 'b world" where
  "GetInfo upload w = ((info upload, None), w)"

text \<open>
  \<open>WriteChunk\<close>. The assignment \<open>upload.info.Offset += n\<close> changes the receiver, which is the
  method's own copy of the handle: \<open>upload'\<close> below, which nothing reads before the return.
\<close>

definition WriteChunk ::
  "'b ossUpload \<Rightarrow> int64 \<Rightarrow> Reader \<Rightarrow> 'b world \<Rightarrow> (int64 \<times> error option) \<times> 'b world" where
  "WriteChunk upload offset src w =
     (let uid = ID (info upload);
          st = store upload;
          binP = binPath uid;
          filename = (case MetaData (info upload) ''filename'' of Some v \<Rightarrow> v | None \<Rightarrow> []);
          contentDisposition = ''attachment; filename='' @ filename
      in case call_AppendObject st binP src offset [ContentDisposition contentDisposition] w of
           ((n, Some err), w1) \<Rightarrow> ((0, Some err), w1)
         | ((n, None), w1) \<Rightarrow>
             (let upload' = upload\<lparr>info := (info upload)\<lparr>Offset := Offset (info upload) + n\<rparr>\<rparr>
              in ((n, None), w1)))"

definition GetReader :: "'b ossUpload \<Rightarrow> 'b world \<Rightarrow> (error + Reader) \<times> 'b world" where
  "GetReader upload w =
     (let uid = ID (info upload);
          st = store upload;
          binP = binPath uid
      in call_ReadObject st binP w)"

definition Terminate :: "'b ossUpload \<Rightarrow> 'b world \<Rightarrow> error option \<times> 'b world" where
  "Terminate upload w =
     (let uid = ID (info upload);
          st = store upload;
          infoP = infoPath uid;
          binP = binPath uid
      in case call_DeleteObject st [infoP, binP] w of
           (Some err, w1) \<Rightarrow> (Some err, w1)
         | (None, w1) \<Rightarrow> (None, w1))"

definition ConcatUploads :: "'b ossUpload \<Rightarrow> nat list \<Rightarrow> 'b world \<Rightarrow> error option \<times> 'b world" where
  "ConcatUploads upload uploads w = (None, w)"

definition DeclareLength :: "'b ossUpload \<Rightarrow> int64 \<Rightarrow> 'b world \<Rightarrow> error option \<times> 'b world" where
  "DeclareLength upload len w = (None, w)"

definition FinishUpload :: "'b ossUpload \<Rightarrow> 'b world \<Rightarrow> error option \<times> 'b world" where
  "FinishUpload upload w = (None, w)"

text \<open>
  A call through the \<open>handler.Upload\<close> interface value that \<open>NewUpload\<close> and \<open>GetUpload\<close>
  return, which holds the pointer \<open>p\<close>: Go copies \<open>*p\<close> into the value receiver and runs the
  method on the copy. \<open>None\<close> stands for the panic on a pointer that was never allocated.
\<close>

definition invoke ::
  "nat \<Rightarrow> ('b ossUpload \<Rightarrow> 'b world \<Rightarrow> 'r \<times> 'b world) \<Rightarrow> 'b world \<Rightarrow> ('r \<times> 'b world) option" where
  "invoke p m w = (case deref w p of None \<Rightarrow> None | Some upload \<Rightarrow> Some (m upload w))"

section \<open>A reference bucket and a stub decoder, for running the adapter\<close>

text \<open>
  An in-memory bucket that keeps the contract written on the \<open>OSSAPI\<close> interface in the
  second source file: a read or a size query of a missing key fails, \<open>PutObject\<close> overwrites,
  \<open>AppendObject\<close> accepts only the position that equals the object's current length (0 for
  a new object) and returns the next append position. \<open>outage\<close> names the requests that
  currently fail before they reach the objects, and the error they fail with, which stands for
  a transport failure.
\<close>

datatype request = Req_GetObject | Req_GetObjectDetailedMeta | Req_DeleteObjects
  | Req_PutObject | Req_AppendObject

record mem =
  objects :: "string \<rightharpoonup> byte list"
  outage :: "request \<rightharpoonup> error"

definition digit_char :: "nat \<Rightarrow> char" where
  "digit_char d = ''0123456789'' ! d"

fun decimal :: "nat \<Rightarrow> string" where
  "decimal n = (if n < 10 then [digit_char n]
                else decimal (n div 10) @ [digit_char (n mod 10)])"

declare decimal.simps [simp del]

definition mem_GetObject :: "mem \<Rightarrow> string \<Rightarrow> (error + Reader) \<times> mem" where
  "mem_GetObject m key =
     (case outage m Req_GetObject of
        Some e \<Rightarrow> (Inl e, m)
      | None \<Rightarrow>
          (case objects m key of
             None \<Rightarrow> (Inl (ServiceError ''NoSuchKey''), m)
           | Some d \<Rightarrow> (Inr (Reader d None), m)))"

definition mem_GetObjectDetailedMeta :: "mem \<Rightarrow> string \<Rightarrow> (error + Header) \<times> mem" where
  "mem_GetObjectDetailedMeta m key =
     (case outage m Req_GetObjectDetailedMeta of
        Some e \<Rightarrow> (Inl e, m)
      | None \<Rightarrow>
          (case objects m key of
             None \<Rightarrow> (Inl (ServiceError ''NoSuchKey''), m)
           | Some d \<Rightarrow> (Inr [''Content-Length'' \<mapsto> decimal (length d)], m)))"

definition mem_DeleteObjects :: "mem \<Rightarrow> string list \<Rightarrow> error option \<times> mem" where
  "mem_DeleteObjects m keys =
     (case outage m Req_DeleteObjects of
        Some e \<Rightarrow> (Some e, m)
      | None \<Rightarrow> (None, m\<lparr>objects := foldr (\<lambda>k f. f(k := None)) keys (objects m)\<rparr>))"

definition mem_PutObject :: "mem \<Rightarrow> string \<Rightarrow> Reader \<Rightarrow> Option_oss list \<Rightarrow> error option \<times> mem" where
  "mem_PutObject m key r opts =
     (case outage m Req_PutObject of
        Some e \<Rightarrow> (Some e, m)
      | None \<Rightarrow>
          (case failure r of
             Some e \<Rightarrow> (Some e, m)
           | None \<Rightarrow> (None, m\<lparr>objects := (objects m)(key \<mapsto> content r)\<rparr>)))"

definition mem_AppendObject ::
  "mem \<Rightarrow> string \<Rightarrow> Reader \<Rightarrow> int64 \<Rightarrow> Option_oss list \<Rightarrow> (int64 \<times> error option) \<times> mem" where
  "mem_AppendObject m key r pos opts =
     (case outage m Req_AppendObject of
        Some e \<Rightarrow> ((0, Some e), m)
      | None \<Rightarrow>
          (let cur = (case objects m key of None \<Rightarrow> [] | Some d \<Rightarrow> d)
           in if pos \<noteq> of_nat (length cur)
              then ((0, Some (ServiceError ''PositionNotEqualToLength'')), m)
              else case failure r of
                     Some e \<Rightarrow> ((0, Some e), m)
                   | None \<Rightarrow>
                       ((pos + of_nat (length (content r)), None),
                        m\<lparr>objects := (objects m)(key \<mapsto> cur @ content r)\<rparr>)))"

definition mem_bucket :: "mem Bucket" where
  "mem_bucket =
     \<lparr> oss_GetObject = mem_GetObject,
       oss_GetObjectDetailedMeta = mem_GetObjectDetailedMeta,
       oss_DeleteObjects = mem_DeleteObjects,
       oss_PutObject = mem_PutObject,
       oss_AppendObject = mem_AppendObject \<rparr>"

definition mem_store :: "mem OSSStore" where
  "mem_store = New (ossService mem_bucket)"

definition bytes_of :: "string \<Rightarrow> byte list" where
  "bytes_of s = map (\<lambda>c. of_nat (of_char c)) s"

text \<open>
  A decoder that knows one document: it encodes every value as \<open>{}\<close> and decodes that to
  \<open>i\<close>. It stands in for \<open>encoding/json\<close> where a run needs a concrete one.
\<close>

definition json_stub :: "FileInfo \<Rightarrow> Json" where
  "json_stub i =
     \<lparr> Marshal = (\<lambda>_. bytes_of ''{}''),
       Unmarshal = (\<lambda>b. if b = bytes_of ''{}'' then Inr i else Inl SyntaxError) \<rparr>"

text \<open>
  What a Go string is after \<open>json.Marshal\<close> and \<open>json.Unmarshal\<close>. \<open>Marshal\<close> coerces a
  string to valid UTF-8: going through it as \<open>utf8.DecodeRuneInString\<close> does, it copies every
  well-formed sequence and writes U+FFFD, the bytes EF BF BD, for every byte that begins none.
  \<open>rune_len\<close> is the length of the well-formed sequence at the head, 0 when there is none.
\<close>

definition cont :: "nat \<Rightarrow> bool" where
  "cont b = (128 \<le> b \<and> b \<le> 191)"

definition rune_len :: "nat list \<Rightarrow> nat" where
  "rune_len s =
     (case s of [] \<Rightarrow> 0 | a # bs \<Rightarrow>
      if a < 128 then 1
      else if 194 \<le> a \<and> a \<le> 223 then
        (case bs of b # _ \<Rightarrow> if cont b then 2 else 0 | _ \<Rightarrow> 0)
      else if 224 \<le> a \<and> a \<le> 239 then
        (case bs of
           b # c # _ \<Rightarrow>
             if (if a = 224 then 160 else 128) \<le> b \<and> b \<le> (if a = 237 then 159 else 191) \<and> cont c
             then 3 else 0
         | _ \<Rightarrow> 0)
      else if 240 \<le> a \<and> a \<le> 244 then
        (case bs of
           b # c # d # _ \<Rightarrow>
             if (if a = 240 then 144 else 128) \<le> b \<and> b \<le> (if a = 244 then 143 else 191)
                \<and> cont c \<and> cont d
             then 4 else 0
         | _ \<Rightarrow> 0)
      else 0)"

fun json_coerce :: "string \<Rightarrow> string" where
  "json_coerce [] = []"
| "json_coerce (c # cs) =
     (let n = rune_len (map of_char (c # cs))
      in if n = 0 then [CHR 0xEF, CHR 0xBF, CHR 0xBD] @ json_coerce cs
         else c # take (n - 1) cs @ json_coerce (drop (n - 1) cs))"

text \<open>
  A \<open>FileInfo\<close> after encoding and decoding: its strings coerced. The keys of the two maps
  are left as they are; the runs below use ASCII keys, which the coercion keeps.
\<close>

definition json_strings :: "FileInfo \<Rightarrow> FileInfo" where
  "json_strings i =
     i\<lparr> ID := json_coerce (ID i),
        MetaData := map_option json_coerce \<circ> MetaData i,
        Storage := map_option json_coerce \<circ> Storage i \<rparr>"

text \<open>
  \<open>encoding/json\<close> on the one document of a run: the value \<open>i\<close> is written as \<open>{}\<close>, and
  \<open>{}\<close> is read back as \<open>i\<close> with its strings coerced.
\<close>

definition json_doc :: "FileInfo \<Rightarrow> Json" where
  "json_doc i =
     \<lparr> Marshal = (\<lambda>_. bytes_of ''{}''),
       Unmarshal = (\<lambda>b. if b = bytes_of ''{}'' then Inr (json_strings i) else Inl SyntaxError) \<rparr>"

definition world0 :: "mem world" where
  "world0 = \<lparr> backend = \<lparr> objects = Map.empty, outage = Map.empty \<rparr>, heap = [], trace = [] \<rparr>"

text \<open>
  The port calls made between two worlds, the storage keys they name, and the snapshot that
  \<open>GetUpload\<close> of an id finds: what the object at the metadata key of the id decodes to,
  \<open>None\<close> when the read, the stream or the decoding fails.
\<close>

fun keys_of_call :: "port_call \<Rightarrow> string set" where
  "keys_of_call (Call_ReadObject k) = {k}"
| "keys_of_call (Call_GetObjectSize k) = {k}"
| "keys_of_call (Call_DeleteObject ks) = set ks"
| "keys_of_call (Call_WriteObject k r opts) = {k}"
| "keys_of_call (Call_AppendObject k r pos opts) = {k}"

definition calls_made :: "'b world \<Rightarrow> 'b world \<Rightarrow> port_call list" where
  "calls_made w w' = drop (length (trace w)) (trace w')"

definition keys_addressed :: "'b world \<Rightarrow> 'b world \<Rightarrow> string set" where
  "keys_addressed w w' = \<Union> (set (map keys_of_call (calls_made w w')))"

definition snapshot_at :: "Json \<Rightarrow> 'b OSSStore \<Rightarrow> 'b world \<Rightarrow> string \<Rightarrow> FileInfo option" where
  "snapshot_at json st w uid =
     (case fst (ReadObject (service st) (backend w) (infoPath uid)) of
        Inl err \<Rightarrow> None
      | Inr r \<Rightarrow>
          (case ReadFrom r of
             Inl err \<Rightarrow> None
           | Inr buf \<Rightarrow> (case Unmarshal json buf of Inl err \<Rightarrow> None | Inr s \<Rightarrow> Some s)))"

text \<open>What \<open>GetInfo\<close> called on the handle at \<open>p\<close> reports: the offset, and a metadata attribute.\<close>

definition reported_offset :: "'b world \<Rightarrow> nat \<Rightarrow> int64 option" where
  "reported_offset w p =
     (case invoke p GetInfo w of None \<Rightarrow> None | Some ((i, err), w') \<Rightarrow> Some (Offset i))"

definition reported_attribute :: "'b world \<Rightarrow> nat \<Rightarrow> string \<Rightarrow> string option" where
  "reported_attribute w p k =
     (case invoke p GetInfo w of None \<Rightarrow> None | Some ((i, err), w') \<Rightarrow> MetaData i k)"

text \<open>
  The run of the spec's scenario on the reference bucket: an upload with the identity
  \<open>abc\<close> is created on the empty bucket, then \<open>hello\<close> is appended at 0 and \<open> world\<close> at 5.
  The worlds below are the ones these calls reach (lemmas \<open>create_abc\<close>, \<open>append_hello\<close>,
  \<open>append_world\<close>).
\<close>

definition info_abc :: FileInfo where
  "info_abc = \<lparr> ID = [], Size = 11, Offset = 0,
                MetaData = [''filehash'' \<mapsto> ''abc'', ''filename'' \<mapsto> ''a.txt''],
                Storage = Map.empty \<rparr>"

definition stored_abc :: FileInfo where
  "stored_abc = info_abc\<lparr>ID := ''abc'', Storage := [''Type'' \<mapsto> ''ossstore'', ''Key'' \<mapsto> ''abc'']\<rparr>"

definition json_abc :: Json where
  "json_abc = json_stub stored_abc"

definition handle_abc :: "mem ossUpload" where
  "handle_abc = \<lparr> info = stored_abc, store = mem_store \<rparr>"

definition hello :: Reader where
  "hello = bytes_NewReader (bytes_of ''hello'')"

definition space_world :: Reader where
  "space_world = bytes_NewReader (bytes_of '' world'')"

definition disposition_abc :: "Option_oss list" where
  "disposition_abc = [ContentDisposition ''attachment; filename=a.txt'']"

definition world_abc :: "mem world" where
  "world_abc =
     \<lparr> backend = \<lparr> objects = [''abc.info'' \<mapsto> bytes_of ''{}''], outage = Map.empty \<rparr>,
       heap = [handle_abc],
       trace = [Call_WriteObject ''abc.info'' (bytes_NewReader (bytes_of ''{}'')) []] \<rparr>"

definition world_hello :: "mem world" where
  "world_hello =
     world_abc\<lparr> backend := \<lparr> objects = [''abc.info'' \<mapsto> bytes_of ''{}'', ''abc'' \<mapsto> bytes_of ''hello''],
                              outage = Map.empty \<rparr>,
                trace := trace world_abc @ [Call_AppendObject ''abc'' hello 0 disposition_abc] \<rparr>"

definition world_hello_world :: "mem world" where
  "world_hello_world =
     world_hello\<lparr> backend := \<lparr> objects = [''abc.info'' \<mapsto> bytes_of ''{}'',
                                            ''abc'' \<mapsto> bytes_of ''hello world''],
                                outage = Map.empty \<rparr>,
                  trace := trace world_hello @ [Call_AppendObject ''abc'' space_world 5 disposition_abc] \<rparr>"

text \<open>The same worlds while one kind of request fails with a timeout.\<close>

definition timeout :: error where
  "timeout = TransportError ''timeout''"

definition during_outage :: "request \<Rightarrow> mem world \<Rightarrow> mem world" where
  "during_outage rq w = w\<lparr>backend := (backend w)\<lparr>outage := [rq \<mapsto> timeout]\<rparr>\<rparr>"

text \<open>
  An upload whose \<open>filename\<close> attribute is the single byte FF, which is not valid UTF-8;
  the worlds that its creation on the empty bucket and the resume after it leave.
\<close>

definition info_ff :: FileInfo where
  "info_ff = info_abc\<lparr>MetaData := [''filehash'' \<mapsto> ''abc'', ''filename'' \<mapsto> [CHR 0xFF]]\<rparr>"

definition stored_ff :: FileInfo where
  "stored_ff = info_ff\<lparr>ID := ''abc'', Storage := [''Type'' \<mapsto> ''ossstore'', ''Key'' \<mapsto> ''abc'']\<rparr>"

definition json_ff :: Json where
  "json_ff = json_doc stored_ff"

definition created_ff :: "mem world" where
  "created_ff = snd (NewUpload json_ff mem_store world0 info_ff)"

definition resumed_ff :: "mem world" where
  "resumed_ff = snd (GetUpload json_ff mem_store created_ff ''abc'')"

text \<open>The world that a resume leaves when the size query times out over the 5-byte data object.\<close>

definition resumed_blind :: "mem world" where
  "resumed_blind =
     snd (GetUpload json_abc mem_store (during_outage Req_GetObjectDetailedMeta world_hello) ''abc'')"

text \<open>
  A metadata object at \<open>abc.info\<close> whose snapshot names the id \<open>zzz\<close>; the handle that a
  resume of \<open>abc\<close> returns for it, and the world the resume leaves.
\<close>

definition stored_zzz :: FileInfo where
  "stored_zzz = stored_abc\<lparr>ID := ''zzz''\<rparr>"

definition json_zzz :: Json where
  "json_zzz = json_stub stored_zzz"

definition handle_zzz :: "mem ossUpload" where
  "handle_zzz = \<lparr> info = stored_zzz\<lparr>Offset := 0\<rparr>, store = mem_store \<rparr>"

definition resumed_zzz :: "mem world" where
  "resumed_zzz = snd (GetUpload json_zzz mem_store world_abc ''abc'')"

section \<open>Unfolding rules and the scenario run\<close>

lemmas port_defs = call_ReadObject_def call_GetObjectSize_def call_DeleteObject_def
  call_WriteObject_def call_AppendObject_def logged_def

lemmas service_defs = New_def ossService_def ossService_ReadObject_def ossService_GetObjectSize_def
  ossService_DeleteObject_def ossService_WriteObject_def ossService_AppendObject_def

lemmas mem_defs = mem_bucket_def mem_store_def mem_GetObject_def mem_GetObjectDetailedMeta_def
  mem_DeleteObjects_def mem_PutObject_def mem_AppendObject_def

lemmas run_defs = info_abc_def stored_abc_def json_abc_def json_stub_def handle_abc_def hello_def
  space_world_def disposition_abc_def world0_def world_abc_def world_hello_def
  world_hello_world_def bytes_NewReader_def bytes_of_def timeout_def during_outage_def

lemmas parse_defs = ParseInt_def digit_of_def decimal.simps digit_char_def Header_Get_def

lemmas json_defs = json_doc_def json_strings_def rune_len_def cont_def

lemma deref_new_ossUpload: "deref (snd (new_ossUpload u w)) (fst (new_ossUpload u w)) = Some u"
  by (simp add: new_ossUpload_def deref_def)

lemma backend_new_ossUpload: "backend (snd (new_ossUpload u w)) = backend w"
  by (simp add: new_ossUpload_def)


lemma WriteChunk_heap: "heap (snd (WriteChunk upload offset src w)) = heap w"
  by (simp add: WriteChunk_def port_defs Let_def split: prod.splits option.splits)

text \<open>
  For any port, a successful \<open>WriteChunk\<close> returns the number the port's \<open>AppendObject\<close>
  returned; and the reference bucket returns the position after the appended bytes.
\<close>

lemma WriteChunk_passes_result:
  assumes "AppendObject (service (store upload)) (backend w) (binPath (ID (info upload))) src offset
        [ContentDisposition (''attachment; filename='' @
           (case MetaData (info upload) ''filename'' of Some v \<Rightarrow> v | None \<Rightarrow> []))] = ((n, None), b')"
  shows "fst (WriteChunk upload offset src w) = (n, None)"
  using assms by (simp add: WriteChunk_def port_defs Let_def)

lemma mem_AppendObject_next_position:
  assumes "mem_AppendObject m key r pos opts = ((n, None), m')"
  shows "n = pos + of_nat (length (content r))"
  using assms by (auto simp: mem_AppendObject_def Let_def split: option.splits if_splits)

lemma create_abc: "NewUpload json_abc mem_store world0 info_abc = (Inr 0, world_abc)"
  by (simp add: NewUpload_def port_defs service_defs mem_defs run_defs binPath_def infoPath_def
      new_ossUpload_def Let_def)

lemma deref_abc: "deref world_abc 0 = Some handle_abc"
  by (simp add: deref_def world_abc_def)

lemma deref_hello: "deref world_hello 0 = Some handle_abc"
  by (simp add: deref_def world_hello_def world_abc_def)


lemma append_hello: "WriteChunk handle_abc 0 hello world_abc = ((5, None), world_hello)"
  by (simp add: WriteChunk_def port_defs service_defs mem_defs run_defs binPath_def Let_def)

lemma append_world:
  "WriteChunk handle_abc 5 space_world world_hello = ((11, None), world_hello_world)"
  by (simp add: WriteChunk_def port_defs service_defs mem_defs run_defs binPath_def Let_def)

section \<open>The claims\<close>

text \<open>
  C1. The claim: every successful \<open>AppendChunk\<close> returns the number of bytes appended, the
  length of the chunk. \<open>WriteChunk\<close> returns what the port's \<open>AppendObject\<close> returns, and
  that is documented as the next append position. In the scenario the 6-byte chunk
  \<open> world\<close> appended at offset 5 succeeds and \<open>WriteChunk\<close> returns 11.
\<close>

theorem WriteChunk_returns_next_position:
  "invoke 0 (\<lambda>upload. WriteChunk upload 5 space_world) world_hello
     = Some ((11, None), world_hello_world) \<and>
   content space_world = bytes_of '' world'' \<and>
   length (content space_world) = 6"
  by (simp add: invoke_def deref_hello append_world)
    (simp add: space_world_def bytes_NewReader_def bytes_of_def)

text \<open>
  C2. The claim: a successful \<open>AppendChunk\<close> advances the handle's cached offset by the
  returned count, and \<open>GetInfo\<close> then reports the old offset plus that count. In the
  scenario \<open>GetInfo\<close> reports offset 0 on the fresh handle, \<open>WriteChunk\<close> of \<open>hello\<close> at 0
  returns 5, and \<open>GetInfo\<close> on the same handle still reports 0: the addition is made on the
  value receiver's copy.
\<close>

theorem WriteChunk_leaves_cached_offset:
  "invoke 0 GetInfo world_abc = Some ((stored_abc, None), world_abc) \<and>
   Offset stored_abc = 0 \<and>
   invoke 0 (\<lambda>upload. WriteChunk upload 0 hello) world_abc = Some ((5, None), world_hello) \<and>
   invoke 0 GetInfo world_hello = Some ((stored_abc, None), world_hello)"
  by (simp add: invoke_def deref_abc deref_hello append_hello GetInfo_def)
    (simp add: handle_abc_def stored_abc_def info_abc_def)

text \<open>
  C4. \<open>NewUpload\<close> on metadata without \<open>filehash\<close> fails with the error
  \<open>miss filehash\<close> and returns the world it was given: no port call is logged, and the backend
  and the handles are as before.
\<close>

theorem NewUpload_miss_filehash:
  "MetaData info0 ''filehash'' = None \<Longrightarrow>
     NewUpload json st w info0 = (Inl (errors_New ''miss filehash''), w)"
  by (simp add: NewUpload_def)

theorem NewUpload_miss_filehash_witness:
  "NewUpload json_abc mem_store world0 (info_abc\<lparr>MetaData := [''filename'' \<mapsto> ''a.txt'']\<rparr>)
     = (Inl (errors_New ''miss filehash''), world0) \<and>
   objects (backend world0) = Map.empty \<and> trace world0 = []"
  using NewUpload_miss_filehash
    [of "info_abc\<lparr>MetaData := [''filename'' \<mapsto> ''a.txt'']\<rparr>" json_abc mem_store world0]
  by (simp add: world0_def)

text \<open>
  C9. \<open>ConcatUploads\<close>, \<open>DeclareLength\<close> and \<open>FinishUpload\<close> return \<open>nil\<close> for every
  receiver, argument and world, and return the world unchanged: backend, handles and the log
  of port calls.
\<close>

theorem stubs_do_nothing:
  "ConcatUploads upload uploads w = (None, w) \<and>
   DeclareLength upload len w = (None, w) \<and>
   FinishUpload upload w = (None, w)"
  by (simp add: ConcatUploads_def DeclareLength_def FinishUpload_def)

text \<open>
  C7. When the port's \<open>AppendObject\<close> fails with an error \<open>e\<close>, whatever the error,
  \<open>WriteChunk\<close> called on the handle returns 0 and that same \<open>e\<close>, the backend is as the
  failed call left it, and the handle still holds the \<open>FileInfo\<close> it held, so \<open>GetInfo\<close>
  reports the offset it reported before.
\<close>

theorem WriteChunk_backend_failure:
  assumes h: "deref w p = Some h"
    and fail: "AppendObject (service (store h)) (backend w) (binPath (ID (info h))) src offset
        [ContentDisposition (''attachment; filename='' @
           (case MetaData (info h) ''filename'' of Some v \<Rightarrow> v | None \<Rightarrow> []))] = ((n, Some e), b')"
  shows "\<exists>w'. invoke p (\<lambda>upload. WriteChunk upload offset src) w = Some ((0, Some e), w') \<and>
           backend w' = b' \<and> heap w' = heap w \<and>
           invoke p GetInfo w' = Some ((info h, None), w')"
  using h fail
  by (auto simp: invoke_def WriteChunk_def GetInfo_def port_defs deref_def Let_def
      split: if_splits)

theorem WriteChunk_backend_failure_witness:
  "(\<exists>w'. invoke 0 (\<lambda>upload. WriteChunk upload 3 hello) world_abc
            = Some ((0, Some (ServiceError ''PositionNotEqualToLength'')), w') \<and>
         backend w' = backend world_abc \<and> heap w' = heap world_abc \<and>
         invoke 0 GetInfo w' = Some ((stored_abc, None), w')) \<and>
   (\<exists>w'. invoke 0 (\<lambda>upload. WriteChunk upload 0 hello) (during_outage Req_AppendObject world_abc)
            = Some ((0, Some timeout), w') \<and>
         objects (backend w') = objects (backend world_abc) \<and> heap w' = heap world_abc \<and>
         invoke 0 GetInfo w' = Some ((stored_abc, None), w'))"
proof -
  have 1: "deref world_abc 0 = Some handle_abc"
    by (rule deref_abc)
  have 2: "deref (during_outage Req_AppendObject world_abc) 0 = Some handle_abc"
    by (simp add: deref_def during_outage_def world_abc_def)
  have 3: "AppendObject (service (store handle_abc)) (backend world_abc)
        (binPath (ID (info handle_abc))) hello 3
        [ContentDisposition (''attachment; filename='' @
           (case MetaData (info handle_abc) ''filename'' of Some v \<Rightarrow> v | None \<Rightarrow> []))]
      = ((0, Some (ServiceError ''PositionNotEqualToLength'')), backend world_abc)"
    by (simp add: service_defs mem_defs run_defs binPath_def Let_def)
  have 4: "AppendObject (service (store handle_abc))
        (backend (during_outage Req_AppendObject world_abc))
        (binPath (ID (info handle_abc))) hello 0
        [ContentDisposition (''attachment; filename='' @
           (case MetaData (info handle_abc) ''filename'' of Some v \<Rightarrow> v | None \<Rightarrow> []))]
      = ((0, Some timeout), backend (during_outage Req_AppendObject world_abc))"
    by (simp add: service_defs mem_defs run_defs binPath_def Let_def)
  have 5: "info handle_abc = stored_abc"
    by (simp add: handle_abc_def)
  have 6: "objects (backend (during_outage Req_AppendObject world_abc)) = objects (backend world_abc)"
    "heap (during_outage Req_AppendObject world_abc) = heap world_abc"
    by (simp_all add: during_outage_def)
  show ?thesis
    using WriteChunk_backend_failure [OF 1 3] WriteChunk_backend_failure [OF 2 4]
    by (auto simp: 5 6)
qed

text \<open>
  C3, amended. Create then Resume. Let the metadata hold \<open>filehash = fh\<close>; let the JSON
  decoder give back unchanged the value that \<open>NewUpload\<close> encodes (as \<open>encoding/json\<close> does
  when every string in it is valid UTF-8); and let the backend accept the write of the
  metadata object, give the written bytes back when the metadata key is read, and report no
  data object at key \<open>fh\<close>. Then \<open>NewUpload\<close> succeeds, and \<open>GetUpload\<close> of \<open>fh\<close> after it
  returns a handle whose offset is 0 and whose metadata attributes are those given to
  \<open>NewUpload\<close>.
\<close>

theorem Create_then_Resume:
  assumes fh: "MetaData info0 ''filehash'' = Some fh"
    and stored: "stored = info0\<lparr>ID := fh, Storage := [''Type'' \<mapsto> ''ossstore'', ''Key'' \<mapsto> fh]\<rparr>"
    and put: "oss_PutObject bucket (backend w) (infoPath fh) (bytes_NewReader (Marshal json stored)) []
                = (None, ba)"
    and get: "oss_GetObject bucket ba (infoPath fh) = (Inr (bytes_NewReader (Marshal json stored)), bb)"
    and roundtrip: "Unmarshal json (Marshal json stored) = Inr stored"
    and absent: "oss_GetObjectDetailedMeta bucket bb (binPath fh) = (Inl e, bc)"
  shows "\<exists>p w1 q w2 h.
           NewUpload json (New (ossService bucket)) w info0 = (Inr p, w1) \<and>
           GetUpload json (New (ossService bucket)) w1 fh = (Inr q, w2) \<and>
           deref w2 q = Some h \<and>
           Offset (info h) = 0 \<and> MetaData (info h) = MetaData info0"
proof -
  let ?st = "New (ossService bucket)"
  define wa where "wa = w\<lparr>backend := ba,
    trace := trace w @ [Call_WriteObject (infoPath fh) (bytes_NewReader (Marshal json stored)) []]\<rparr>"
  define u1 where "u1 = \<lparr> info = stored, store = ?st \<rparr>"
  define p where "p = fst (new_ossUpload u1 wa)"
  define w1 where "w1 = snd (new_ossUpload u1 wa)"
  have create: "NewUpload json ?st w info0 = (Inr p, w1)"
    using fh put
    by (simp add: NewUpload_def port_defs service_defs Let_def binPath_def stored p_def w1_def
        wa_def u1_def split: prod.splits)
  have bw1: "backend w1 = ba"
    by (simp add: w1_def backend_new_ossUpload wa_def)
  define wb where "wb = w1\<lparr>backend := bc,
    trace := trace w1 @ [Call_ReadObject (infoPath fh), Call_GetObjectSize (binPath fh)]\<rparr>"
  define u2 where "u2 = \<lparr> info = stored\<lparr>Offset := 0\<rparr>, store = ?st \<rparr>"
  define q where "q = fst (new_ossUpload u2 wb)"
  define w2 where "w2 = snd (new_ossUpload u2 wb)"
  have resume: "GetUpload json ?st w1 fh = (Inr q, w2)"
    using get roundtrip absent bw1
    by (simp add: GetUpload_def port_defs service_defs Let_def bytes_NewReader_def ReadFrom_def
        q_def w2_def wb_def u2_def split: prod.splits)
  have handle: "deref w2 q = Some u2"
    by (simp add: q_def w2_def deref_new_ossUpload)
  have "Offset (info u2) = 0 \<and> MetaData (info u2) = MetaData info0"
    by (simp add: u2_def stored)
  with create resume handle show ?thesis by blast
qed

lemma json_strings_abc: "json_strings stored_abc = stored_abc"
  by (simp add: json_strings_def stored_abc_def info_abc_def rune_len_def fun_eq_iff Let_def)

theorem Create_then_Resume_witness:
  "\<exists>p w1 q w2 h.
     NewUpload (json_doc stored_abc) (New (ossService mem_bucket)) world0 info_abc = (Inr p, w1) \<and>
     GetUpload (json_doc stored_abc) (New (ossService mem_bucket)) w1 ''abc'' = (Inr q, w2) \<and>
     deref w2 q = Some h \<and>
     Offset (info h) = 0 \<and> MetaData (info h) = MetaData info_abc"
proof (rule Create_then_Resume [where fh = "''abc''" and stored = stored_abc
      and ba = "backend world_abc" and bb = "backend world_abc" and bc = "backend world_abc"
      and e = "ServiceError ''NoSuchKey''"])
  show "MetaData info_abc ''filehash'' = Some ''abc''"
    by (simp add: info_abc_def)
  show "stored_abc = info_abc\<lparr>ID := ''abc'', Storage := [''Type'' \<mapsto> ''ossstore'', ''Key'' \<mapsto> ''abc'']\<rparr>"
    by (simp add: stored_abc_def)
  show "oss_PutObject mem_bucket (backend world0) (infoPath ''abc'')
          (bytes_NewReader (Marshal (json_doc stored_abc) stored_abc)) [] = (None, backend world_abc)"
    by (simp add: mem_defs run_defs json_doc_def infoPath_def)
  show "oss_GetObject mem_bucket (backend world_abc) (infoPath ''abc'')
          = (Inr (bytes_NewReader (Marshal (json_doc stored_abc) stored_abc)), backend world_abc)"
    by (simp add: mem_defs run_defs json_doc_def infoPath_def)
  show "Unmarshal (json_doc stored_abc) (Marshal (json_doc stored_abc) stored_abc) = Inr stored_abc"
    by (simp add: json_doc_def json_strings_abc)
  show "oss_GetObjectDetailedMeta mem_bucket (backend world_abc) (binPath ''abc'')
          = (Inl (ServiceError ''NoSuchKey''), backend world_abc)"
    by (simp add: mem_defs run_defs binPath_def)
qed

text \<open>
  C3 as it is worded, for every metadata map, fails: \<open>Marshal\<close> replaces what is not valid
  UTF-8. An upload created with \<open>filehash = abc\<close> and a \<open>filename\<close> that is the byte FF,
  on the empty bucket, is resumed with offset 0 and the \<open>filename\<close> EF BF BD.
\<close>

theorem Create_then_Resume_invalid_utf8:
  "MetaData info_ff ''filehash'' = Some ''abc'' \<and>
   MetaData info_ff ''filename'' = Some [CHR 0xFF] \<and>
   fst (NewUpload json_ff mem_store world0 info_ff) = Inr 0 \<and>
   objects (backend created_ff) ''abc'' = None \<and>
   fst (GetUpload json_ff mem_store created_ff ''abc'') = Inr 1 \<and>
   reported_offset resumed_ff 1 = Some 0 \<and>
   reported_attribute resumed_ff 1 ''filename'' = Some [CHR 0xEF, CHR 0xBF, CHR 0xBD] \<and>
   reported_attribute resumed_ff 1 ''filename'' \<noteq> MetaData info_ff ''filename''"
proof -
  have created: "NewUpload json_ff mem_store world0 info_ff
      = (Inr 0, world_abc\<lparr>heap := [\<lparr> info = stored_ff, store = mem_store \<rparr>]\<rparr>)"
    by (simp add: NewUpload_def port_defs service_defs mem_defs run_defs json_ff_def json_doc_def
        stored_ff_def info_ff_def binPath_def infoPath_def new_ossUpload_def Let_def)
  have coerced: "MetaData (json_strings stored_ff) ''filename'' = Some [CHR 0xEF, CHR 0xBF, CHR 0xBD]"
    by (simp add: json_strings_def stored_ff_def info_ff_def rune_len_def Let_def)
  have resumed: "GetUpload json_ff mem_store created_ff ''abc''
      = (Inr 1, resumed_ff) \<and>
        deref resumed_ff 1 = Some \<lparr> info = (json_strings stored_ff)\<lparr>Offset := 0\<rparr>, store = mem_store \<rparr>"
    unfolding resumed_ff_def created_ff_def created
    by (simp add: GetUpload_def port_defs service_defs mem_defs run_defs json_ff_def json_doc_def
        ReadFrom_def binPath_def infoPath_def new_ossUpload_def deref_def Let_def)
  show ?thesis
    using created resumed coerced
    by (simp add: created_ff_def reported_offset_def reported_attribute_def invoke_def GetInfo_def
        info_ff_def world_abc_def)
qed

text \<open>
  C5, amended. Whenever \<open>GetUpload\<close> succeeds, the offset of the handle it returns is decided
  by the size query of the data key alone, asked of the backend as the read of the metadata
  object left it: it is the \<open>Content-Length\<close> the backend reports, read as a decimal
  \<open>int64\<close>, when the query succeeds, and 0 whenever the query fails, be it that the object is
  missing, that the request fails, or that the header does not parse. The decoded snapshot
  does not occur on the right-hand side: its offset plays no part.
\<close>

theorem GetUpload_offset_measured:
  assumes "GetUpload json (New (ossService bucket)) w uid = (Inr q, w')"
  shows "\<exists>h. deref w' q = Some h \<and>
           Offset (info h) =
             (case fst (oss_GetObjectDetailedMeta bucket
                          (snd (oss_GetObject bucket (backend w) (infoPath uid))) (binPath uid)) of
                Inl e \<Rightarrow> 0
              | Inr meta \<Rightarrow>
                  (case ParseInt (Header_Get meta ''Content-Length'') of Inl e \<Rightarrow> 0 | Inr n \<Rightarrow> n))"
  using assms
  by (auto simp: GetUpload_def port_defs service_defs new_ossUpload_def deref_def Let_def
      split: prod.splits sum.splits option.splits)

lemma resume_hello:
  "fst (GetUpload json_abc (New (ossService mem_bucket)) world_hello ''abc'') = Inr 1"
  by (simp add: GetUpload_def port_defs service_defs mem_defs run_defs parse_defs ReadFrom_def
      binPath_def infoPath_def new_ossUpload_def Let_def)

lemma resume_abc:
  "fst (GetUpload json_abc (New (ossService mem_bucket)) world_abc ''abc'') = Inr 1"
  by (simp add: GetUpload_def port_defs service_defs mem_defs run_defs parse_defs ReadFrom_def
      binPath_def infoPath_def new_ossUpload_def Let_def)

theorem GetUpload_offset_measured_witness:
  "(\<exists>h. deref (snd (GetUpload json_abc (New (ossService mem_bucket)) world_hello ''abc'')) 1 = Some h \<and>
        Offset (info h) = 5) \<and>
   (\<exists>h. deref (snd (GetUpload json_abc (New (ossService mem_bucket)) world_abc ''abc'')) 1 = Some h \<and>
        Offset (info h) = 0)"
proof -
  have run5: "GetUpload json_abc (New (ossService mem_bucket)) world_hello ''abc''
      = (Inr 1, snd (GetUpload json_abc (New (ossService mem_bucket)) world_hello ''abc''))"
    using resume_hello by (simp add: prod_eq_iff)
  have run0: "GetUpload json_abc (New (ossService mem_bucket)) world_abc ''abc''
      = (Inr 1, snd (GetUpload json_abc (New (ossService mem_bucket)) world_abc ''abc''))"
    using resume_abc by (simp add: prod_eq_iff)
  have size5: "fst (oss_GetObjectDetailedMeta mem_bucket
      (snd (oss_GetObject mem_bucket (backend world_hello) (infoPath ''abc''))) (binPath ''abc''))
      = Inr [''Content-Length'' \<mapsto> ''5'']"
    by (simp add: mem_defs run_defs parse_defs binPath_def infoPath_def)
  have size0: "fst (oss_GetObjectDetailedMeta mem_bucket
      (snd (oss_GetObject mem_bucket (backend world_abc) (infoPath ''abc''))) (binPath ''abc''))
      = Inl (ServiceError ''NoSuchKey'')"
    by (simp add: mem_defs run_defs binPath_def infoPath_def)
  have parse5: "ParseInt (Header_Get [''Content-Length'' \<mapsto> ''5''] ''Content-Length'') = Inr 5"
    by (simp add: parse_defs)
  from GetUpload_offset_measured [OF run5] GetUpload_offset_measured [OF run0]
  show ?thesis
    by (simp add: size5 size0 parse5)
qed

text \<open>
  C5 as it is worded, offset 0 only when the data object does not exist, fails: while the
  size query times out, a resume of \<open>abc\<close> over the data object \<open>hello\<close> succeeds with
  offset 0, and the data object is there with its 5 bytes.
\<close>

theorem GetUpload_offset_zero_over_data:
  "fst (GetUpload json_abc mem_store (during_outage Req_GetObjectDetailedMeta world_hello) ''abc'')
     = Inr 1 \<and>
   reported_offset resumed_blind 1 = Some 0 \<and>
   objects (backend resumed_blind) ''abc'' = Some (bytes_of ''hello'') \<and>
   length (bytes_of ''hello'') = 5"
  by (simp add: resumed_blind_def reported_offset_def invoke_def GetInfo_def GetUpload_def
      port_defs service_defs mem_defs run_defs ReadFrom_def binPath_def infoPath_def
      new_ossUpload_def deref_def Let_def)

text \<open>
  C10. When the metadata object is read and decoded and the size query of the data key
  then fails with an error \<open>e\<close>, whatever the error, \<open>GetUpload\<close> returns no error but a
  handle that holds the decoded snapshot with offset 0.
\<close>

theorem GetUpload_ignores_size_error:
  assumes "oss_GetObject bucket (backend w) (infoPath uid) = (Inr r, b1)"
    and "ReadFrom r = Inr buf"
    and "Unmarshal json buf = Inr snapshot"
    and "ossService_GetObjectSize bucket b1 (binPath uid) = ((n, Some e), b2)"
  shows "\<exists>q w' h. GetUpload json (New (ossService bucket)) w uid = (Inr q, w') \<and>
           deref w' q = Some h \<and> info h = snapshot\<lparr>Offset := 0\<rparr> \<and> backend w' = b2"
  using assms
  by (auto simp: GetUpload_def port_defs service_defs new_ossUpload_def deref_def Let_def
      split: prod.splits sum.splits option.splits)

theorem GetUpload_ignores_size_error_witness:
  "\<exists>q w' h. GetUpload json_abc (New (ossService mem_bucket))
               (during_outage Req_GetObjectDetailedMeta world_hello) ''abc'' = (Inr q, w') \<and>
     deref w' q = Some h \<and> info h = stored_abc\<lparr>Offset := 0\<rparr> \<and>
     objects (backend w') ''abc'' = Some (bytes_of ''hello'')"
proof -
  let ?b = "backend (during_outage Req_GetObjectDetailedMeta world_hello)"
  have 1: "oss_GetObject mem_bucket ?b (infoPath ''abc'') = (Inr (Reader (bytes_of ''{}'') None), ?b)"
    by (simp add: mem_defs run_defs infoPath_def)
  have 2: "ReadFrom (Reader (bytes_of ''{}'') None) = Inr (bytes_of ''{}'')"
    by (simp add: ReadFrom_def)
  have 3: "Unmarshal json_abc (bytes_of ''{}'') = Inr stored_abc"
    by (simp add: json_abc_def json_stub_def)
  have 4: "ossService_GetObjectSize mem_bucket ?b (binPath ''abc'') = ((0, Some timeout), ?b)"
    by (simp add: service_defs mem_defs run_defs binPath_def)
  have 5: "objects ?b ''abc'' = Some (bytes_of ''hello'')"
    by (simp add: run_defs)
  from GetUpload_ignores_size_error [OF 1 2 3 4] 5 show ?thesis
    by auto
qed



text \<open>
  C6, amended. The data key of an id is the id and the metadata key is the id followed by
  \<open>.info\<close>, two different keys. \<open>NewUpload\<close> makes one port call, the write of the snapshot
  to the metadata key of the \<open>filehash\<close> (none without a \<open>filehash\<close>), and the handle it
  returns holds that \<open>filehash\<close> as its \<open>ID\<close>. \<open>GetUpload\<close> of an id reads the metadata key
  of the id and, when a snapshot was decoded, asks the size of the data key of the id, and
  nothing else; the handle it returns holds the \<open>ID\<close> of the decoded snapshot, whatever id was
  resumed. The methods of a handle address the keys of the \<open>ID\<close> the handle holds:
  \<open>WriteChunk\<close> and \<open>GetReader\<close> the data key, \<open>Terminate\<close> both in one call, \<open>GetInfo\<close>
  none.
\<close>

theorem keys_of_every_operation:
  "binPath uid = uid \<and> infoPath uid = uid @ ''.info'' \<and> binPath uid \<noteq> infoPath uid \<and>
   calls_made w (snd (NewUpload json st w info0)) =
     (case MetaData info0 ''filehash'' of
        None \<Rightarrow> []
      | Some fh \<Rightarrow>
          [Call_WriteObject (infoPath fh)
             (bytes_NewReader (Marshal json
                (info0\<lparr>ID := fh, Storage := [''Type'' \<mapsto> ''ossstore'', ''Key'' \<mapsto> binPath fh]\<rparr>))) []]) \<and>
   (\<forall>p w'. NewUpload json st w info0 = (Inr p, w') \<longrightarrow>
      (\<exists>h. deref w' p = Some h \<and> MetaData info0 ''filehash'' = Some (ID (info h)))) \<and>
   calls_made w (snd (GetUpload json st w uid)) =
     (case snapshot_at json st w uid of
        None \<Rightarrow> [Call_ReadObject (infoPath uid)]
      | Some s \<Rightarrow> [Call_ReadObject (infoPath uid), Call_GetObjectSize (binPath uid)]) \<and>
   (\<forall>q w'. GetUpload json st w uid = (Inr q, w') \<longrightarrow>
      (\<exists>h s. deref w' q = Some h \<and> snapshot_at json st w uid = Some s \<and> ID (info h) = ID s)) \<and>
   calls_made w (snd (GetInfo upload w)) = [] \<and>
   calls_made w (snd (WriteChunk upload offset src w)) =
     [Call_AppendObject (binPath (ID (info upload))) src offset
        [ContentDisposition (''attachment; filename='' @
           (case MetaData (info upload) ''filename'' of Some v \<Rightarrow> v | None \<Rightarrow> []))]] \<and>
   calls_made w (snd (GetReader upload w)) = [Call_ReadObject (binPath (ID (info upload)))] \<and>
   calls_made w (snd (Terminate upload w)) =
     [Call_DeleteObject [infoPath (ID (info upload)), binPath (ID (info upload))]]"
proof -
  have 1: "binPath uid = uid \<and> infoPath uid = uid @ ''.info'' \<and> binPath uid \<noteq> infoPath uid"
    by (simp add: binPath_def infoPath_def)
  have 2: "calls_made w (snd (NewUpload json st w info0)) =
     (case MetaData info0 ''filehash'' of
        None \<Rightarrow> []
      | Some fh \<Rightarrow>
          [Call_WriteObject (infoPath fh)
             (bytes_NewReader (Marshal json
                (info0\<lparr>ID := fh, Storage := [''Type'' \<mapsto> ''ossstore'', ''Key'' \<mapsto> binPath fh]\<rparr>))) []])"
    by (simp add: calls_made_def NewUpload_def port_defs new_ossUpload_def Let_def
        split: prod.splits option.splits)
  have 3: "\<forall>p w'. NewUpload json st w info0 = (Inr p, w') \<longrightarrow>
      (\<exists>h. deref w' p = Some h \<and> MetaData info0 ''filehash'' = Some (ID (info h)))"
    by (auto simp: NewUpload_def port_defs new_ossUpload_def deref_def Let_def
        split: prod.splits option.splits)
  have 4: "calls_made w (snd (GetUpload json st w uid)) =
     (case snapshot_at json st w uid of
        None \<Rightarrow> [Call_ReadObject (infoPath uid)]
      | Some s \<Rightarrow> [Call_ReadObject (infoPath uid), Call_GetObjectSize (binPath uid)])"
    by (simp add: calls_made_def snapshot_at_def GetUpload_def port_defs new_ossUpload_def Let_def
        split: prod.splits sum.splits)
  have 5: "\<forall>q w'. GetUpload json st w uid = (Inr q, w') \<longrightarrow>
      (\<exists>h s. deref w' q = Some h \<and> snapshot_at json st w uid = Some s \<and> ID (info h) = ID s)"
    by (auto simp: snapshot_at_def GetUpload_def port_defs new_ossUpload_def deref_def Let_def
        split: prod.splits sum.splits)
  have 6: "calls_made w (snd (GetInfo upload w)) = []"
    by (simp add: calls_made_def GetInfo_def)
  have 7: "calls_made w (snd (WriteChunk upload offset src w)) =
     [Call_AppendObject (binPath (ID (info upload))) src offset
        [ContentDisposition (''attachment; filename='' @
           (case MetaData (info upload) ''filename'' of Some v \<Rightarrow> v | None \<Rightarrow> []))]]"
    by (simp add: calls_made_def WriteChunk_def port_defs Let_def
        split: prod.splits option.splits)
  have 8: "calls_made w (snd (GetReader upload w)) = [Call_ReadObject (binPath (ID (info upload)))]"
    by (simp add: calls_made_def GetReader_def port_defs Let_def split: prod.splits)
  have 9: "calls_made w (snd (Terminate upload w)) =
     [Call_DeleteObject [infoPath (ID (info upload)), binPath (ID (info upload))]]"
    by (simp add: calls_made_def Terminate_def port_defs Let_def
        split: prod.splits option.splits)
  show ?thesis
    by (intro conjI 2 3 4 5 6 7 8 9 1 [THEN conjunct1] 1 [THEN conjunct2, THEN conjunct1]
        1 [THEN conjunct2, THEN conjunct2])
qed

theorem keys_of_every_operation_witness:
  "calls_made world0 (snd (NewUpload json_abc mem_store world0 info_abc))
     = [Call_WriteObject ''abc.info'' (bytes_NewReader (bytes_of ''{}'')) []] \<and>
   (\<exists>h. deref world_abc 0 = Some h \<and> ID (info h) = ''abc'') \<and>
   calls_made world_hello (snd (GetUpload json_abc mem_store world_hello ''abc''))
     = [Call_ReadObject ''abc.info'', Call_GetObjectSize ''abc''] \<and>
   (\<exists>h. deref (snd (GetUpload json_abc mem_store world_hello ''abc'')) 1 = Some h \<and>
        ID (info h) = ''abc'') \<and>
   calls_made world_hello (snd (WriteChunk handle_abc 5 space_world world_hello))
     = [Call_AppendObject ''abc'' space_world 5 disposition_abc] \<and>
   calls_made world_hello (snd (GetReader handle_abc world_hello)) = [Call_ReadObject ''abc''] \<and>
   calls_made world_hello (snd (Terminate handle_abc world_hello))
     = [Call_DeleteObject [''abc.info'', ''abc'']]"
proof -
  have snap: "snapshot_at json_abc mem_store world_hello ''abc'' = Some stored_abc"
    by (simp add: snapshot_at_def service_defs mem_defs run_defs ReadFrom_def infoPath_def)
  have run: "GetUpload json_abc mem_store world_hello ''abc''
      = (Inr 1, snd (GetUpload json_abc mem_store world_hello ''abc''))"
    using resume_hello by (simp add: prod_eq_iff mem_store_def)
  have ids: "ID stored_abc = ''abc''" "info handle_abc = stored_abc"
    "MetaData stored_abc ''filename'' = Some ''a.txt''" "MetaData info_abc ''filehash'' = Some ''abc''"
    "Marshal json_abc = (\<lambda>_. bytes_of ''{}'')"
    by (simp_all add: stored_abc_def info_abc_def handle_abc_def json_abc_def json_stub_def)
  note a = keys_of_every_operation [of "''abc''" world0 json_abc mem_store info_abc handle_abc 0 hello]
  note b = keys_of_every_operation
    [of "''abc''" world_hello json_abc mem_store info_abc handle_abc 5 space_world]
  have new: "calls_made world0 (snd (NewUpload json_abc mem_store world0 info_abc))
     = [Call_WriteObject ''abc.info'' (bytes_NewReader (bytes_of ''{}'')) []]"
    using a by (simp add: ids infoPath_def)
  have new_id: "\<exists>h. deref world_abc 0 = Some h \<and> ID (info h) = ''abc''"
    using a create_abc by (auto simp: ids)
  have get: "calls_made world_hello (snd (GetUpload json_abc mem_store world_hello ''abc''))
     = [Call_ReadObject ''abc.info'', Call_GetObjectSize ''abc'']"
    using b by (simp add: snap infoPath_def binPath_def)
  have get_id: "\<exists>h. deref (snd (GetUpload json_abc mem_store world_hello ''abc'')) 1 = Some h \<and>
        ID (info h) = ''abc''"
    using b run by (auto simp: snap ids)
  have rest: "calls_made world_hello (snd (WriteChunk handle_abc 5 space_world world_hello))
       = [Call_AppendObject ''abc'' space_world 5 disposition_abc] \<and>
     calls_made world_hello (snd (GetReader handle_abc world_hello)) = [Call_ReadObject ''abc''] \<and>
     calls_made world_hello (snd (Terminate handle_abc world_hello))
       = [Call_DeleteObject [''abc.info'', ''abc'']]"
    using b by (simp add: ids infoPath_def binPath_def disposition_abc_def)
  from new new_id get get_id rest show ?thesis by blast
qed

text \<open>
  C6 as it is worded, every operation on an upload id addresses the two keys of that id,
  fails: when the metadata object at \<open>abc.info\<close> holds a snapshot that names \<open>zzz\<close>, the
  resume of \<open>abc\<close> returns a handle with the \<open>ID\<close> \<open>zzz\<close>, and \<open>Terminate\<close> on that handle
  deletes \<open>zzz.info\<close> and \<open>zzz\<close>, neither of them a key of \<open>abc\<close>.
\<close>

theorem resumed_handle_addresses_other_keys:
  "objects (backend world_abc) ''abc.info'' = Some (bytes_of ''{}'') \<and>
   Unmarshal json_zzz (bytes_of ''{}'') = Inr stored_zzz \<and> ID stored_zzz = ''zzz'' \<and>
   fst (GetUpload json_zzz mem_store world_abc ''abc'') = Inr 1 \<and>
   deref resumed_zzz 1 = Some handle_zzz \<and>
   calls_made resumed_zzz (snd (Terminate handle_zzz resumed_zzz))
     = [Call_DeleteObject [''zzz.info'', ''zzz'']] \<and>
   keys_addressed resumed_zzz (snd (Terminate handle_zzz resumed_zzz)) = {''zzz.info'', ''zzz''} \<and>
   \<not> keys_addressed resumed_zzz (snd (Terminate handle_zzz resumed_zzz))
       \<subseteq> {binPath ''abc'', infoPath ''abc''}"
proof -
  have resumed: "GetUpload json_zzz mem_store world_abc ''abc'' = (Inr 1, resumed_zzz) \<and>
      deref resumed_zzz 1 = Some handle_zzz"
    unfolding resumed_zzz_def
    by (simp add: GetUpload_def port_defs service_defs mem_defs run_defs json_zzz_def
        stored_zzz_def handle_zzz_def ReadFrom_def binPath_def infoPath_def new_ossUpload_def
        deref_def Let_def)
  have calls: "calls_made resumed_zzz (snd (Terminate handle_zzz resumed_zzz))
     = [Call_DeleteObject [''zzz.info'', ''zzz'']]"
    by (simp add: calls_made_def Terminate_def port_defs handle_zzz_def stored_zzz_def
        binPath_def infoPath_def Let_def split: prod.splits option.splits)
  have doc: "objects (backend world_abc) ''abc.info'' = Some (bytes_of ''{}'') \<and>
      Unmarshal json_zzz (bytes_of ''{}'') = Inr stored_zzz \<and> ID stored_zzz = ''zzz''"
    by (simp add: world_abc_def json_zzz_def json_stub_def stored_zzz_def)
  show ?thesis
    using resumed calls doc
    by (simp add: keys_addressed_def binPath_def infoPath_def)
qed

end
